theory Spec2Isabelle
  imports Complex_Main "HOL-Library.Sublist"
begin

section \<open>Python values as the handlers of app.py see them\<close>

text \<open>
  A Python \<open>str\<close> is a sequence of Unicode code points, so a string is a list of
  natural numbers here. \<open>ascii\<close> turns an ASCII literal into its code points; the
  Korean text of the source is written as code points directly.
\<close>

type_synonym pystr = "nat list"

definition ascii :: "string \<Rightarrow> pystr" where
  "ascii = map of_char"

text \<open>
  A Python \<open>float\<close> as \<open>json.loads\<close> and \<open>time.time()\<close> produce it. Every finite
  double is a rational number; the model admits every rational, which only widens the
  statements proved for all floats. The handlers observe a float through its truth
  value, through equality with an integer dictionary key, and through \<open>str()\<close>.
\<close>

datatype pyfloat = Finite rat | NegZero | PosInf | NegInf | NaN

text \<open>
  What \<open>request.get_json(silent=True)\<close> returns: \<open>None\<close> (also for a body that is
  missing or does not parse), \<open>bool\<close>, \<open>int\<close>, \<open>float\<close>, \<open>str\<close>, \<open>list\<close> or
  \<open>dict\<close>. A \<open>dict\<close> is an association list in insertion order, looked up with
  \<open>map_of\<close>; the keys of a parsed object are distinct, and everything below is proved
  for every association list.
\<close>

datatype json =
    JNull
  | JBool bool
  | JInt int
  | JFloat pyfloat
  | JStr pystr
  | JList "json list"
  | JDict "(pystr \<times> json) list"

text \<open>Python truth value testing (\<open>not x\<close>, \<open>x or y\<close>, \<open>all([...])\<close>, \<open>if x\<close>).\<close>

fun truthy :: "json \<Rightarrow> bool" where
  "truthy JNull = False"
| "truthy (JBool b) = b"
| "truthy (JInt i) = (i \<noteq> 0)"
| "truthy (JFloat (Finite q)) = (q \<noteq> 0)"
| "truthy (JFloat NegZero) = False"
| "truthy (JFloat PosInf) = True"
| "truthy (JFloat NegInf) = True"
| "truthy (JFloat NaN) = True"
| "truthy (JStr s) = (s \<noteq> [])"
| "truthy (JList xs) = (xs \<noteq> [])"
| "truthy (JDict d) = (d \<noteq> [])"

text \<open>\<open>x or y\<close>.\<close>

definition py_or :: "json \<Rightarrow> json \<Rightarrow> json" where
  "py_or x y = (if truthy x then x else y)"

text \<open>\<open>type(x).__name__\<close>, as it appears in the messages of the runtime's exceptions.\<close>

fun type_name :: "json \<Rightarrow> pystr" where
  "type_name JNull = ascii ''NoneType''"
| "type_name (JBool b) = ascii ''bool''"
| "type_name (JInt i) = ascii ''int''"
| "type_name (JFloat f) = ascii ''float''"
| "type_name (JStr s) = ascii ''str''"
| "type_name (JList xs) = ascii ''list''"
| "type_name (JDict d) = ascii ''dict''"

text \<open>
  The exceptions the handlers can meet, each with its message (\<open>str(e)\<close>).
  \<open>RequestException\<close> stands for \<open>requests.exceptions.RequestException\<close> and its
  subclasses, \<open>OtherException\<close> for any other \<open>Exception\<close> the gateway library raises.
\<close>

datatype py_exc =
    TypeError pystr
  | AttributeError pystr
  | RequestException pystr
  | OtherException pystr


text \<open>A Flask view's return value \<open>jsonify(body), status\<close>.\<close>

type_synonym response = "json \<times> nat"

text \<open>
  The three ways a block of a view can end: an exception propagates, the view returns
  a response early, or control continues with a value.
\<close>

datatype 'a flow = Raise py_exc | Return response | Ok 'a

fun bind :: "'a flow \<Rightarrow> ('a \<Rightarrow> 'b flow) \<Rightarrow> 'b flow" where
  "bind (Raise e) f = Raise e"
| "bind (Return r) f = Return r"
| "bind (Ok x) f = f x"

text \<open>\<open>obj.get(key, default)\<close>: a dictionary lookup; any other JSON value has no \<open>get\<close>.\<close>

definition no_attribute :: "json \<Rightarrow> string \<Rightarrow> py_exc" where
  "no_attribute obj attr =
     AttributeError (ascii [CHR 0x27] @ type_name obj @ ascii [CHR 0x27]
       @ ascii '' object has no attribute '' @ ascii [CHR 0x27] @ ascii attr @ ascii [CHR 0x27])"

definition dict_get :: "(pystr \<times> json) list \<Rightarrow> pystr \<Rightarrow> json \<Rightarrow> json" where
  "dict_get d key dflt = (case map_of d key of None \<Rightarrow> dflt | Some v \<Rightarrow> v)"

fun py_get :: "json \<Rightarrow> pystr \<Rightarrow> json \<Rightarrow> json flow" where
  "py_get (JDict d) key dflt = Ok (dict_get d key dflt)"
| "py_get obj key dflt = Raise (no_attribute obj ''get'')"

text \<open>
  \<open>str(x)\<close> as an f-string applies it: a \<open>str\<close> is itself; for every other value the
  text is the runtime's (\<open>None\<close>, \<open>True\<close>, the digits of a number, the \<open>repr\<close> of a
  list or dict), handed to the model as the function \<open>repr\<close>.
\<close>

fun py_str :: "(json \<Rightarrow> pystr) \<Rightarrow> json \<Rightarrow> pystr" where
  "py_str repr (JStr s) = s"
| "py_str repr v = repr v"


text \<open>
  What Flask makes of a view: the response it returned, or, for an exception that
  left the view, the response of the handler registered with \<open>errorhandler(500)\<close>.
\<close>

definition jsonify_error :: "pystr \<Rightarrow> json" where
  "jsonify_error msg = JDict [(ascii ''error'', JStr msg)]"

definition internal_error :: "response" where
  "internal_error = (jsonify_error (ascii ''Internal server error''), 500)"

fun flask_response :: "py_exc + response \<Rightarrow> response" where
  "flask_response (Inl e) = internal_error"
| "flask_response (Inr r) = r"

section \<open>POST /api/alerts/<scenario_id>\<close>

text \<open>
  \<open>DEVICE_MAP = {4: "CR1", 5: "BB1", 6: "BB2"}\<close> and \<open>DEVICE_MAP.get(key, default)\<close>.
  A dictionary hashes its key first: a list or a dict is unhashable and the lookup
  raises \<open>TypeError\<close>. A hashable key finds the entry whose key it equals, and Python
  equates \<open>4\<close>, \<open>4.0\<close> and (for 0 and 1) the booleans.
\<close>

definition DEVICE_MAP :: "(int \<times> pystr) list" where
  "DEVICE_MAP = [(4, ascii ''CR1''), (5, ascii ''BB1''), (6, ascii ''BB2'')]"

fun hashable :: "json \<Rightarrow> bool" where
  "hashable (JList xs) = False"
| "hashable (JDict d) = False"
| "hashable v = True"

fun eq_int :: "json \<Rightarrow> int \<Rightarrow> bool" where
  "eq_int (JInt i) k = (i = k)"
| "eq_int (JBool b) k = ((if b then 1 else 0) = k)"
| "eq_int (JFloat (Finite q)) k = (q = of_int k)"
| "eq_int (JFloat NegZero) k = (k = 0)"
| "eq_int v k = False"

definition unhashable :: "json \<Rightarrow> py_exc" where
  "unhashable key =
     TypeError (ascii ''unhashable type: '' @ ascii [CHR 0x27] @ type_name key @ ascii [CHR 0x27])"

definition int_dict_get :: "(int \<times> pystr) list \<Rightarrow> json \<Rightarrow> pystr \<Rightarrow> pystr flow" where
  "int_dict_get m key dflt =
     (if \<not> hashable key then Raise (unhashable key)
      else Ok (case find (\<lambda>(k, v). eq_int key k) m of None \<Rightarrow> dflt | Some (k, v) \<Rightarrow> v))"

text \<open>
  A unified alarm is the dictionary the view builds; \<open>ALARM_STORE\<close> is the list of them.
\<close>

type_synonym alarm = "(pystr \<times> json) list"

definition MAX_ALARMS :: nat where
  "MAX_ALARMS = 3"

text \<open>
  Lines 239-270, the branch \<open>scenario_id == "1"\<close>. \<open>new_id\<close> is \<open>str(uuid.uuid4())\<close>.
  The warning \<open>art\<close> is the f-string of line 256: an asterisk, two Hangul syllables,
  \<open>" : "\<close>, the interface name, and the rest of the Korean sentence.
\<close>

definition interlink_warning :: "pystr \<Rightarrow> pystr" where
  "interlink_warning interface_name =
     ascii ''*'' @ [0xACBD, 0xACE0] @ ascii '' : '' @ interface_name
     @ [0xAC00] @ ascii '' down'' @ [0xB418, 0xC5B4, 0xC788, 0xC2B5, 0xB2C8, 0xB2E4]
     @ ascii ''. interlink'' @ [0xB97C] @ ascii '' ''
     @ [0xD655, 0xC778, 0xD574, 0xC8FC, 0xC138, 0xC694] @ ascii ''.''"

definition scenario_1 :: "(json \<Rightarrow> pystr) \<Rightarrow> json \<Rightarrow> pystr \<Rightarrow> alarm flow" where
  "scenario_1 repr body new_id =
     bind (py_get body (ascii ''device'') JNull) (\<lambda>device_id.
     bind (int_dict_get DEVICE_MAP device_id
            (ascii ''Unknown('' @ py_str repr device_id @ ascii '')'')) (\<lambda>device_name.
     bind (py_get body (ascii ''interface'') JNull) (\<lambda>interface_name.
     bind (py_get body (ascii ''packet_loss'') JNull) (\<lambda>packet_loss.
     bind (py_get body (ascii ''timestamp'') JNull) (\<lambda>time.
     bind (py_get body (ascii ''alarm_type'') JNull) (\<lambda>alarm_type.
     bind (py_get body (ascii ''interlink_status'') JNull) (\<lambda>interlink_status.
     bind (py_get body (ascii ''optic_power'') (JDict [])) (\<lambda>optic_power_data.
     if \<not> list_all truthy [device_id, interface_name, JBool (packet_loss \<noteq> JNull), alarm_type]
     then Return (jsonify_error (ascii ''Missing data for scenario 1''), 400)
     else
       let art = (if interlink_status = JStr (ascii ''false'')
                  then interlink_warning (py_str repr interface_name) else [])
       in Ok [(ascii ''id'', JStr new_id),
              (ascii ''device'', JStr device_name),
              (ascii ''title'', JStr (device_name @ ascii '' '' @ [0xC7A5, 0xBE44] @ ascii '' Interface ''
                 @ py_str repr interface_name @ ascii '' CRC Error '' @ [0xBC1C, 0xC0DD])),
              (ascii ''description'', JStr (ascii ''Interface '' @ py_str repr interface_name
                 @ ascii '' error rate - '' @ py_str repr packet_loss @ ascii ''%<br>'' @ art)),
              (ascii ''type'', alarm_type),
              (ascii ''time'', time),
              (ascii ''optic_power_data'', optic_power_data),
              (ascii ''show_optic_power_button'', JBool True),
              (ascii ''interface_name'', interface_name)]))))))))"

text \<open>Lines 272-303, the branch \<open>scenario_id == "3"\<close>.\<close>

definition scenario_3 :: "(json \<Rightarrow> pystr) \<Rightarrow> json \<Rightarrow> pystr \<Rightarrow> alarm flow" where
  "scenario_3 repr body new_id =
     bind (py_get body (ascii ''device'') JNull) (\<lambda>device_id.
     bind (int_dict_get DEVICE_MAP device_id
            (ascii ''Unknown('' @ py_str repr device_id @ ascii '')'')) (\<lambda>device_name.
     bind (py_get body (ascii ''interface'') JNull) (\<lambda>interface_name.
     bind (py_get body (ascii ''interfaces'') (JList [])) (\<lambda>interfaces_list.
     bind (py_get body (ascii ''inout_packet'') (JDict [])) (\<lambda>inout_packet.
     bind (py_get body (ascii ''timestamp'') JNull) (\<lambda>time.
     bind (py_get body (ascii ''drop_count'') (JDict [])) (\<lambda>drop_count.
     if \<not> list_all truthy [device_id, interface_name, interfaces_list, inout_packet, drop_count]
     then Return (jsonify_error (ascii ''Missing data for scenario 3''), 400)
     else
       bind (py_get inout_packet (ascii ''alarm_type'') JNull) (\<lambda>severity.
       bind (py_get inout_packet (ascii ''traffic_diff'') (JFloat (Finite 0))) (\<lambda>rate.
       let description_text = ascii ''Service Impact Rate - '' @ py_str repr rate @ ascii ''%''
       in Ok [(ascii ''id'', JStr new_id),
              (ascii ''title'', JStr (device_name @ ascii '' Interface '' @ py_str repr interface_name
                 @ [0xC5D0, 0xC11C] @ ascii '' Blackhole '' @ [0xBC1C, 0xC0DD])),
              (ascii ''description'', JStr description_text),
              (ascii ''type'', severity),
              (ascii ''time'', time),
              (ascii ''show_optic_power_button'', JBool False),
              (ascii ''show_interfaces_button'', JBool True),
              (ascii ''interfaces'', interfaces_list)])))))))))"

text \<open>Lines 305-336, the branch \<open>scenario_id == "2"\<close>.\<close>

definition log_description :: pystr where
  "log_description = ascii (''fpc/8/pfe/0/cm/0/XMCHIP(0)/0/XMCHIP_CMERROR_FI_PAR_PROTECT_FSET_REG_DETECTED_CP_FREEPOOL''
     @ '' (0x70134) in module: XMCHIP(0) with scope: pfe category: functional level: major, oc_category: default'')"

definition scenario_2 :: "(json \<Rightarrow> pystr) \<Rightarrow> json \<Rightarrow> pystr \<Rightarrow> alarm flow" where
  "scenario_2 repr body new_id =
     bind (py_get body (ascii ''device'') JNull) (\<lambda>device_id.
     bind (int_dict_get DEVICE_MAP device_id
            (ascii ''Unknown('' @ py_str repr device_id @ ascii '')'')) (\<lambda>device_name.
     bind (py_get body (ascii ''fpc_slot'') JNull) (\<lambda>fpc_slot.
     bind (py_get body (ascii ''timestamp'') JNull) (\<lambda>time.
     bind (py_get body (ascii ''discard_rate'') (JDict [])) (\<lambda>discard_rate_obj.
     bind (py_get discard_rate_obj (ascii ''discard_rate'') (JFloat (Finite 0))) (\<lambda>discard_rate.
     if \<not> list_all truthy [device_id, fpc_slot, JStr log_description, discard_rate]
     then Return (jsonify_error (ascii ''Missing data for scenario 2''), 400)
     else
       let severity = JStr (ascii ''major'')
       in Ok [(ascii ''id'', JStr new_id),
              (ascii ''title'', JStr (device_name @ ascii '' '' @ [0xC7A5, 0xBE44] @ ascii '' FPC''
                 @ py_str repr fpc_slot @ ascii '' PFE Disable '' @ [0xBC1C, 0xC0DD])),
              (ascii ''description'', JStr (ascii ''Service Impact Rate - '' @ py_str repr discard_rate
                 @ ascii ''%'')),
              (ascii ''type'', severity),
              (ascii ''time'', time),
              (ascii ''show_optic_power_button'', JBool False),
              (ascii ''show_interfaces_button'', JBool False),
              (ascii ''show_log_button'', JBool True),
              (ascii ''discard_data'', discard_rate),
              (ascii ''log_description'', JStr log_description)]))))))"

text \<open>
  Lines 228-340: the body is read, an empty one is refused, and the branch of the
  scenario builds \<open>unified_alarm_data\<close> or returns its 400.
\<close>

definition unified_alarm_data :: "(json \<Rightarrow> pystr) \<Rightarrow> pystr \<Rightarrow> json \<Rightarrow> pystr \<Rightarrow> alarm flow" where
  "unified_alarm_data repr scenario_id request_json new_id =
     (let body = py_or request_json (JDict []) in
      if \<not> truthy body then Return (jsonify_error (ascii ''Request body is required''), 400)
      else if scenario_id = ascii ''1'' then scenario_1 repr body new_id
      else if scenario_id = ascii ''3'' then scenario_3 repr body new_id
      else if scenario_id = ascii ''2'' then scenario_2 repr body new_id
      else Return (jsonify_error (ascii ''invalid or unsupported scenario_id''), 400))"

text \<open>
  Lines 342-351: at capacity the oldest alarm is popped from the front, the new alarm
  is appended, and the response carries the store. The view returns its result and the
  new \<open>ALARM_STORE\<close>.
\<close>

definition store_append :: "alarm list \<Rightarrow> alarm \<Rightarrow> alarm list" where
  "store_append ALARM_STORE alarm =
     (if length ALARM_STORE \<ge> MAX_ALARMS then tl ALARM_STORE else ALARM_STORE) @ [alarm]"

definition api_alerts ::
  "(json \<Rightarrow> pystr) \<Rightarrow> alarm list \<Rightarrow> pystr \<Rightarrow> json \<Rightarrow> pystr \<Rightarrow> (py_exc + response) \<times> alarm list" where
  "api_alerts repr ALARM_STORE scenario_id request_json new_id =
     (case unified_alarm_data repr scenario_id request_json new_id of
        Raise e \<Rightarrow> (Inl e, ALARM_STORE)
      | Return r \<Rightarrow> (Inr r, ALARM_STORE)
      | Ok alarm \<Rightarrow>
          (let store = store_append ALARM_STORE alarm
           in (Inr (JDict [(ascii ''status'', JStr (ascii ''success'')),
                           (ascii ''alarms'', JList (map JDict store))], 200), store)))"


text \<open>
  A sequence of requests to the view, each \<open>(scenario_id, body, new_id)\<close>, served one
  after the other on the same store; and the alarms the requests of the sequence build.
\<close>

type_synonym alert_request = "pystr \<times> json \<times> pystr"

fun post_alerts ::
  "(json \<Rightarrow> pystr) \<Rightarrow> alarm list \<Rightarrow> alert_request list \<Rightarrow> (py_exc + response) list \<times> alarm list" where
  "post_alerts repr ALARM_STORE [] = ([], ALARM_STORE)"
| "post_alerts repr ALARM_STORE ((scenario_id, request_json, new_id) # reqs) =
     (let (res, store) = api_alerts repr ALARM_STORE scenario_id request_json new_id;
          (ress, store') = post_alerts repr store reqs
      in (res # ress, store'))"

fun appended_alarms :: "(json \<Rightarrow> pystr) \<Rightarrow> alert_request list \<Rightarrow> alarm list" where
  "appended_alarms repr [] = []"
| "appended_alarms repr ((scenario_id, request_json, new_id) # reqs) =
     (case unified_alarm_data repr scenario_id request_json new_id of
        Ok alarm \<Rightarrow> alarm # appended_alarms repr reqs
      | _ \<Rightarrow> appended_alarms repr reqs)"

fun successful :: "py_exc + response \<Rightarrow> bool" where
  "successful (Inl e) = False"
| "successful (Inr (body, status)) = (status = 200)"

section \<open>GET /api/current-alarms and DELETE /api/alarms/ignore/<alarm_id>\<close>

definition get_current_alarms :: "alarm list \<Rightarrow> response" where
  "get_current_alarms ALARM_STORE =
     (if ALARM_STORE \<noteq> [] then (JList (map JDict ALARM_STORE), 200)
      else (JDict [(ascii ''status'', JStr (ascii ''no new alarm''))], 202))"

text \<open>
  Lines 392-406. \<open>alarm.get("id")\<close> is \<open>None\<close> for an alarm without the key. Every
  element of the store is a dictionary, so nothing inside the \<open>try\<close> raises and the
  \<open>except\<close> branch (500) has no counterpart. The view rebinds \<open>ALARM_STORE\<close> to the
  filtered list on both branches.
\<close>

definition api_ignore_alarm :: "alarm list \<Rightarrow> pystr \<Rightarrow> response \<times> alarm list" where
  "api_ignore_alarm ALARM_STORE alarm_id =
     (let original_len = length ALARM_STORE;
          store = filter (\<lambda>alarm. dict_get alarm (ascii ''id'') JNull \<noteq> JStr alarm_id) ALARM_STORE
      in if length store < original_len
         then ((JDict [(ascii ''status'', JStr (ascii ''success'')),
                       (ascii ''message'', JStr (ascii ''Alarm ignored and removed''))], 200), store)
         else ((jsonify_error (ascii ''Alarm ID not found''), 404), store))"

section \<open>The latest-result mailbox\<close>

text \<open>
  \<open>LATEST_RESULT_STORE\<close> is a dictionary with the three fixed keys \<open>result\<close>,
  \<open>timestamp\<close> and \<open>scenario_id\<close>; line 32 gives its value at start-up.
\<close>

record latest_result_store =
  result :: json
  timestamp :: json
  scenario_id :: json

definition LATEST_RESULT_STORE :: latest_result_store where
  "LATEST_RESULT_STORE =
     \<lparr>result = JDict [(ascii ''text'', JStr [])], timestamp = JNull, scenario_id = JNull\<rparr>"

definition jsonify_store :: "latest_result_store \<Rightarrow> json" where
  "jsonify_store s =
     JDict [(ascii ''result'', result s), (ascii ''timestamp'', timestamp s),
            (ascii ''scenario_id'', scenario_id s)]"


text \<open>
  Lines 441-454, GET /api/results/latest-result: a truthy \<open>result\<close> is copied, the
  three keys are set to \<open>None\<close>, and the copy is the response.
\<close>

definition get_analysis_results :: "latest_result_store \<Rightarrow> response \<times> latest_result_store" where
  "get_analysis_results store =
     (if truthy (result store)
      then (let result_copy = store;
                store' = store\<lparr>result := JNull, timestamp := JNull, scenario_id := JNull\<rparr>
            in ((jsonify_store result_copy, 200), store'))
      else ((JDict [(ascii ''status'', JStr (ascii ''processing''))], 202), store))"

section \<open>Configuration and the gateway client\<close>

text \<open>
  \<open>os.environ\<close> is a map from names to values. \<open>str.lower()\<close> is modelled on the
  letters A to Z; the other cased letters of Unicode lower to code points outside ASCII
  or to letters other than t, r, u and e, so the comparison with \<open>"true"\<close> is the
  runtime's.
\<close>

type_synonym environ = "pystr \<rightharpoonup> pystr"

definition environ_get :: "environ \<Rightarrow> pystr \<Rightarrow> pystr \<Rightarrow> pystr" where
  "environ_get env name dflt = (case env name of None \<Rightarrow> dflt | Some v \<Rightarrow> v)"

definition py_lower :: "pystr \<Rightarrow> pystr" where
  "py_lower s = map (\<lambda>c. if 0x41 \<le> c \<and> c \<le> 0x5A then c + 0x20 else c) s"

definition GATEWAY_BASE :: "environ \<Rightarrow> pystr" where
  "GATEWAY_BASE env = environ_get env (ascii ''GATEWAY_BASE'') (ascii ''https://223.194.92.152:443'')"

definition GW_VERIFY :: "environ \<Rightarrow> bool" where
  "GW_VERIFY env = (py_lower (environ_get env (ascii ''GW_VERIFY'') (ascii ''false'')) = ascii ''true'')"


text \<open>
  A call of \<open>requests.get\<close> or \<open>requests.post\<close> with the arguments the wrappers pass.
  The upstream answers a call by raising (a transport failure, a timeout, or the
  \<open>HTTPError\<close> of \<open>raise_for_status\<close>) or with a response, whose \<open>json()\<close> is a value
  or raises in turn.
\<close>

datatype http_method = GET | POST

record gw_call =
  http_method :: http_method
  url :: pystr
  json_body :: "json option"
  timeout :: int
  verify :: bool
  stream :: bool

datatype gw_reply = GwRaise py_exc | GwResponse "py_exc + json"

type_synonym gateway = "gw_call \<Rightarrow> gw_reply"

text \<open>
  Lines 48-68. Both wrappers log a \<open>RequestException\<close> and raise it again, so every
  exception leaves them. They return the outcome and the calls issued.
\<close>

definition gw_get ::
  "environ \<Rightarrow> gateway \<Rightarrow> pystr \<Rightarrow> int \<Rightarrow> (py_exc + (py_exc + json)) \<times> gw_call list" where
  "gw_get env gw path tmo =
     (let call = \<lparr>http_method = GET, url = GATEWAY_BASE env @ path, json_body = None,
                  timeout = tmo, verify = GW_VERIFY env, stream = False\<rparr>
      in (case gw call of GwRaise e \<Rightarrow> Inl e | GwResponse r \<Rightarrow> Inr r, [call]))"

definition gw_post ::
  "environ \<Rightarrow> gateway \<Rightarrow> pystr \<Rightarrow> json \<Rightarrow> int \<Rightarrow> bool \<Rightarrow> (py_exc + (py_exc + json)) \<times> gw_call list" where
  "gw_post env gw path body tmo strm =
     (let call = \<lparr>http_method = POST, url = GATEWAY_BASE env @ path, json_body = Some body,
                  timeout = tmo, verify = GW_VERIFY env, stream = strm\<rparr>
      in (case gw call of GwRaise e \<Rightarrow> Inl e | GwResponse r \<Rightarrow> Inr r, [call]))"


section \<open>POST /api/analyze\<close>







section \<open>Inputs and predicates of the stated properties\<close>

text \<open>
  The payload of the specification's example for scenario 1:
  \<open>{"device": 4, "interface": "ge-0/0/1", "packet_loss": 12.5, "alarm_type": "major",
  "interlink_status": "false"}\<close>.
\<close>

definition example_scenario_1 :: json where
  "example_scenario_1 =
     JDict [(ascii ''device'', JInt 4),
            (ascii ''interface'', JStr (ascii ''ge-0/0/1'')),
            (ascii ''packet_loss'', JFloat (Finite (25 / 2))),
            (ascii ''alarm_type'', JStr (ascii ''major'')),
            (ascii ''interlink_status'', JStr (ascii ''false''))]"

text \<open>
  The nested field \<open>outer.inner\<close> of the payload \<open>d\<close>, when the payload has one:
  \<open>outer\<close> must be present and an object, and \<open>inner\<close> a key of it.
\<close>

definition nested_field :: "(pystr \<times> json) list \<Rightarrow> pystr \<Rightarrow> pystr \<Rightarrow> json option" where
  "nested_field d outer inner =
     (case map_of d outer of
        Some (JDict e) \<Rightarrow> map_of e inner
      | _ \<Rightarrow> None)"


text \<open>
  The nested field \<open>discard_rate.discard_rate\<close> is absent from the payload, or present
  with the value \<open>0.0\<close>.
\<close>

definition discard_rate_absent_or_zero :: "(pystr \<times> json) list \<Rightarrow> bool" where
  "discard_rate_absent_or_zero d =
     (case nested_field d (ascii ''discard_rate'') (ascii ''discard_rate'') of
        None \<Rightarrow> True
      | Some v \<Rightarrow> v = JFloat (Finite 0))"

text \<open>
  The payload has the shape the view's field extraction relies on: the value of
  \<open>device\<close>, when present, is not a list or an object (a dictionary key must be
  hashable), and for scenario 2 the value of \<open>discard_rate\<close>, when present, is an
  object. On any other payload the extraction raises before the required-field check.
\<close>

definition fields_typed :: "pystr \<Rightarrow> (pystr \<times> json) list \<Rightarrow> bool" where
  "fields_typed scenario d =
     (hashable (dict_get d (ascii ''device'') JNull)
      \<and> (if scenario = ascii ''2''
         then (case map_of d (ascii ''discard_rate'') of
                 None \<Rightarrow> True
               | Some (JDict e) \<Rightarrow> True
               | Some v \<Rightarrow> False)
         else True))"

text \<open>The mailbox after a poll has consumed its result.\<close>

definition cleared :: latest_result_store where
  "cleared = \<lparr>result = JNull, timestamp = JNull, scenario_id = JNull\<rparr>"


text \<open>The description of the alarm a request builds, when it builds one.\<close>

definition described :: "alarm flow \<Rightarrow> pystr option" where
  "described f =
     (case f of
        Ok alarm \<Rightarrow>
          (case dict_get alarm (ascii ''description'') JNull of JStr t \<Rightarrow> Some t | _ \<Rightarrow> None)
      | _ \<Rightarrow> None)"



section \<open>Auxiliary facts\<close>

lemma ascii_eq_iff [simp]: "ascii s = ascii t \<longleftrightarrow> s = t"
  unfolding ascii_def by (simp add: inj_map_eq_map inj_on_def)

lemma ascii_Nil_iff [simp]: "ascii s = [] \<longleftrightarrow> s = []"
  by (simp add: ascii_def)

lemma log_description_not_empty [simp]: "log_description \<noteq> []"
  by (simp add: log_description_def)


lemma py_or_dict [simp]: "py_or (JDict d) (JDict []) = JDict d"
  by (simp add: py_or_def)

lemma py_or_falsy [simp]: "\<not> truthy v \<Longrightarrow> py_or v w = w"
  by (simp add: py_or_def)

lemma py_or_truthy [simp]: "truthy v \<Longrightarrow> py_or v w = v"
  by (simp add: py_or_def)

lemmas eval_alerts =
  api_alerts_def unified_alarm_data_def scenario_1_def scenario_2_def scenario_3_def py_or_def
  int_dict_get_def DEVICE_MAP_def dict_get_def store_append_def MAX_ALARMS_def

subsection \<open>How a view block ends\<close>

lemma bind_eq_Return_iff:
  "bind m f = Return r \<longleftrightarrow> m = Return r \<or> (\<exists>x. m = Ok x \<and> f x = Return r)"
  by (cases m) auto

lemma py_get_not_Return [simp]: "py_get obj key dflt \<noteq> Return r"
  by (cases obj) auto

lemma int_dict_get_not_Return [simp]: "int_dict_get m key dflt \<noteq> Return r"
  by (simp add: int_dict_get_def)

lemma scenario_1_status: "scenario_1 repr body nid = Return (b, st) \<Longrightarrow> st = 400"
  by (auto simp: scenario_1_def bind_eq_Return_iff Let_def split: if_splits)

lemma scenario_2_status: "scenario_2 repr body nid = Return (b, st) \<Longrightarrow> st = 400"
  by (auto simp: scenario_2_def bind_eq_Return_iff Let_def split: if_splits)

lemma scenario_3_status: "scenario_3 repr body nid = Return (b, st) \<Longrightarrow> st = 400"
  by (auto simp: scenario_3_def bind_eq_Return_iff Let_def split: if_splits)

lemma unified_alarm_data_status:
  "unified_alarm_data repr sid body nid = Return (b, st) \<Longrightarrow> st = 400"
  by (auto simp: unified_alarm_data_def Let_def split: if_splits
      dest: scenario_1_status scenario_2_status scenario_3_status)

lemma successful_api_alerts:
  "successful (fst (api_alerts repr s sid body nid)) \<Longrightarrow>
     \<exists>a. unified_alarm_data repr sid body nid = Ok a"
  by (cases "unified_alarm_data repr sid body nid")
     (auto simp: api_alerts_def dest: unified_alarm_data_status)

subsection \<open>The store keeps the last three alarms\<close>

lemma length_store_append: "length s \<le> MAX_ALARMS \<Longrightarrow> length (store_append s a) \<le> MAX_ALARMS"
  by (cases s) (auto simp: store_append_def MAX_ALARMS_def)

lemma store_append_drop:
  "length s \<le> MAX_ALARMS \<Longrightarrow> store_append s a = drop (length (s @ [a]) - MAX_ALARMS) (s @ [a])"
  by (cases s) (auto simp: store_append_def MAX_ALARMS_def Suc_diff_le)

lemma drop_drop_last:
  assumes "k = 0 \<or> k + n \<le> length w"
  shows "drop (length (drop k w) - n) (drop k w) = drop (length w - n) w"
proof -
  have "length w - k - n + k = length w - n" using assms by arith
  then show ?thesis by (simp only: drop_drop length_drop)
qed

lemma drop_prefix_last:
  assumes "k \<le> length xs - n"
  shows "drop (length (drop k xs @ ys) - n) (drop k xs @ ys) = drop (length (xs @ ys) - n) (xs @ ys)"
proof -
  have k: "k \<le> length xs" using assms by simp
  then have e: "drop k xs @ ys = drop k (xs @ ys)" by simp
  have "k = 0 \<or> k + n \<le> length (xs @ ys)" using assms by auto
  then show ?thesis unfolding e by (rule drop_drop_last)
qed

lemma post_alerts_store:
  "length s \<le> MAX_ALARMS \<Longrightarrow>
   snd (post_alerts repr s reqs) =
     drop (length (s @ appended_alarms repr reqs) - MAX_ALARMS) (s @ appended_alarms repr reqs)"
proof (induction reqs arbitrary: s)
  case Nil
  then show ?case by simp
next
  case (Cons r reqs)
  obtain sid body nid where r: "r = (sid, body, nid)" by (cases r)
  show ?case
  proof (cases "unified_alarm_data repr sid body nid")
    case (Ok a)
    have l: "length (store_append s a) \<le> MAX_ALARMS" using Cons.prems by (rule length_store_append)
    have "snd (post_alerts repr s (r # reqs)) = snd (post_alerts repr (store_append s a) reqs)"
      using Ok by (simp add: r api_alerts_def Let_def split_beta)
    also have "\<dots> = drop (length (store_append s a @ appended_alarms repr reqs) - MAX_ALARMS)
                      (store_append s a @ appended_alarms repr reqs)"
      by (rule Cons.IH[OF l])
    also have "\<dots> = drop (length ((s @ [a]) @ appended_alarms repr reqs) - MAX_ALARMS)
                      ((s @ [a]) @ appended_alarms repr reqs)"
      unfolding store_append_drop[OF Cons.prems] by (rule drop_prefix_last) simp
    finally show ?thesis using Ok by (simp add: r)
  next
    case (Raise e)
    then show ?thesis using Cons.IH[OF Cons.prems] by (simp add: r api_alerts_def split_beta)
  next
    case (Return x)
    then show ?thesis using Cons.IH[OF Cons.prems] by (simp add: r api_alerts_def split_beta)
  qed
qed

lemma length_post_alerts:
  "length s \<le> MAX_ALARMS \<Longrightarrow> length (snd (post_alerts repr s reqs)) \<le> MAX_ALARMS"
  by (simp add: post_alerts_store)

lemma post_alerts_successful:
  "list_all successful (fst (post_alerts repr s reqs)) \<Longrightarrow>
     length (appended_alarms repr reqs) = length reqs"
proof (induction reqs arbitrary: s)
  case Nil
  then show ?case by simp
next
  case (Cons r reqs)
  obtain sid body nid where r: "r = (sid, body, nid)" by (cases r)
  from Cons.prems have s: "successful (fst (api_alerts repr s sid body nid))"
    and t: "list_all successful (fst (post_alerts repr (snd (api_alerts repr s sid body nid)) reqs))"
    by (simp_all add: r split_beta Let_def)
  from successful_api_alerts[OF s] obtain a where "unified_alarm_data repr sid body nid = Ok a" ..
  then show ?case using Cons.IH[OF t] by (simp add: r)
qed

section \<open>The alarm store is a bounded FIFO\<close>

text \<open>
  Claim C1. Let a sequence of requests to POST /api/alerts/<scenario_id> be served on a
  store of at most three alarms, every request answered with 200. Then the store holds
  at most three alarms at the end and after every prefix of the sequence, every request
  appended one alarm, and when more than three requests were served the store is exactly
  the last three appended alarms, oldest first.
\<close>

theorem alarm_store_bounded_fifo:
  assumes "length ALARM_STORE \<le> MAX_ALARMS"
    and "post_alerts repr ALARM_STORE reqs = (ress, store)"
    and "list_all successful ress"
  shows "length store \<le> MAX_ALARMS
       \<and> (\<forall>n. length (snd (post_alerts repr ALARM_STORE (take n reqs))) \<le> MAX_ALARMS)
       \<and> length (appended_alarms repr reqs) = length reqs
       \<and> (MAX_ALARMS < length reqs \<longrightarrow>
            store = drop (length reqs - MAX_ALARMS) (appended_alarms repr reqs)
            \<and> length store = MAX_ALARMS)"
proof -
  have st: "store = snd (post_alerts repr ALARM_STORE reqs)" using assms(2) by simp
  have ok: "list_all successful (fst (post_alerts repr ALARM_STORE reqs))" using assms(2,3) by simp
  have len: "length (appended_alarms repr reqs) = length reqs"
    using ok by (rule post_alerts_successful)
  have b: "length store \<le> MAX_ALARMS" unfolding st using assms(1) by (rule length_post_alerts)
  have p: "\<forall>n. length (snd (post_alerts repr ALARM_STORE (take n reqs))) \<le> MAX_ALARMS"
    using assms(1) by (simp add: length_post_alerts)
  have e: "store = drop (length (ALARM_STORE @ appended_alarms repr reqs) - MAX_ALARMS)
                     (ALARM_STORE @ appended_alarms repr reqs)"
    unfolding st using assms(1) by (rule post_alerts_store)
  have "store = drop (length reqs - MAX_ALARMS) (appended_alarms repr reqs) \<and> length store = MAX_ALARMS"
    if "MAX_ALARMS < length reqs"
    using that e len by simp
  then show ?thesis using b p len by blast
qed

text \<open>
  Four scenario-2 requests with the ids a, b, c, d on the empty store: all succeed and
  the store ends as the alarms b, c, d. Every number of the payloads is 7, so \<open>str()\<close>
  is only ever asked for the text of 7.
\<close>

theorem alarm_store_bounded_fifo_witness:
  "let reqs = [(ascii ''2'', JDict [(ascii ''device'', JInt 7), (ascii ''fpc_slot'', JInt 7),
                  (ascii ''discard_rate'', JDict [(ascii ''discard_rate'', JInt 7)])], ascii ''a''),
               (ascii ''2'', JDict [(ascii ''device'', JInt 7), (ascii ''fpc_slot'', JInt 7),
                  (ascii ''discard_rate'', JDict [(ascii ''discard_rate'', JInt 7)])], ascii ''b''),
               (ascii ''2'', JDict [(ascii ''device'', JInt 7), (ascii ''fpc_slot'', JInt 7),
                  (ascii ''discard_rate'', JDict [(ascii ''discard_rate'', JInt 7)])], ascii ''c''),
               (ascii ''2'', JDict [(ascii ''device'', JInt 7), (ascii ''fpc_slot'', JInt 7),
                  (ascii ''discard_rate'', JDict [(ascii ''discard_rate'', JInt 7)])], ascii ''d'')];
       store = snd (post_alerts (\<lambda>v. ascii ''7'') [] reqs)
   in list_all successful (fst (post_alerts (\<lambda>v. ascii ''7'') [] reqs))
      \<and> length store = 3
      \<and> store = drop 1 (appended_alarms (\<lambda>v. ascii ''7'') reqs)
      \<and> map (\<lambda>a. dict_get a (ascii ''id'') JNull) store
          = [JStr (ascii ''b''), JStr (ascii ''c''), JStr (ascii ''d'')]"
proof -
  define reqs where "reqs = [(ascii ''2'', JDict [(ascii ''device'', JInt 7), (ascii ''fpc_slot'', JInt 7),
                  (ascii ''discard_rate'', JDict [(ascii ''discard_rate'', JInt 7)])], ascii ''a''),
               (ascii ''2'', JDict [(ascii ''device'', JInt 7), (ascii ''fpc_slot'', JInt 7),
                  (ascii ''discard_rate'', JDict [(ascii ''discard_rate'', JInt 7)])], ascii ''b''),
               (ascii ''2'', JDict [(ascii ''device'', JInt 7), (ascii ''fpc_slot'', JInt 7),
                  (ascii ''discard_rate'', JDict [(ascii ''discard_rate'', JInt 7)])], ascii ''c''),
               (ascii ''2'', JDict [(ascii ''device'', JInt 7), (ascii ''fpc_slot'', JInt 7),
                  (ascii ''discard_rate'', JDict [(ascii ''discard_rate'', JInt 7)])], ascii ''d'')]"
  have ok: "list_all successful (fst (post_alerts (\<lambda>v. ascii ''7'') [] reqs))"
    by (simp add: reqs_def eval_alerts)
  have len: "length reqs = 4" by (simp add: reqs_def)
  have ids: "map (\<lambda>a. dict_get a (ascii ''id'') JNull) (appended_alarms (\<lambda>v. ascii ''7'') reqs)
     = [JStr (ascii ''a''), JStr (ascii ''b''), JStr (ascii ''c''), JStr (ascii ''d'')]"
    by (simp add: reqs_def eval_alerts)
  have "length ([] :: alarm list) \<le> MAX_ALARMS" by simp
  from alarm_store_bounded_fifo[OF this prod.collapse[symmetric] ok]
  have "snd (post_alerts (\<lambda>v. ascii ''7'') [] reqs) = drop 1 (appended_alarms (\<lambda>v. ascii ''7'') reqs)"
    and "length (snd (post_alerts (\<lambda>v. ascii ''7'') [] reqs)) = 3"
    by (simp_all add: len MAX_ALARMS_def)
  then show ?thesis
    using ok ids unfolding reqs_def[symmetric] Let_def by (simp add: drop_map[symmetric])
qed


section \<open>The response of a successful ingestion\<close>

text \<open>
  Claim C10. Whenever POST /api/alerts/<scenario_id> answers 200, the view built an
  alarm, the \<open>alarms\<close> field of the response is the whole store after the append, and
  that store is the earlier store (without its oldest alarm when it was at capacity)
  followed by the new alarm: the response lists the alarms of earlier requests too,
  oldest first.
\<close>

theorem api_alerts_response_is_store:
  assumes "successful (fst (api_alerts repr ALARM_STORE sid request_json new_id))"
  shows "\<exists>alarm. unified_alarm_data repr sid request_json new_id = Ok alarm
           \<and> api_alerts repr ALARM_STORE sid request_json new_id =
               (Inr (JDict [(ascii ''status'', JStr (ascii ''success'')),
                            (ascii ''alarms'', JList (map JDict (store_append ALARM_STORE alarm)))], 200),
                store_append ALARM_STORE alarm)
           \<and> store_append ALARM_STORE alarm =
               (if length ALARM_STORE < MAX_ALARMS then ALARM_STORE @ [alarm]
                else tl ALARM_STORE @ [alarm])"
proof -
  from successful_api_alerts[OF assms] obtain alarm
    where a: "unified_alarm_data repr sid request_json new_id = Ok alarm" ..
  then show ?thesis by (auto simp: api_alerts_def store_append_def)
qed

theorem api_alerts_response_is_store_witness:
  "let store = [[(ascii ''id'', JStr (ascii ''x''))], [(ascii ''id'', JStr (ascii ''y''))]];
       body = JDict [(ascii ''device'', JInt 7), (ascii ''fpc_slot'', JInt 7),
                     (ascii ''discard_rate'', JDict [(ascii ''discard_rate'', JInt 7)])];
       (res, store') = api_alerts (\<lambda>v. ascii ''7'') store (ascii ''2'') body (ascii ''z'')
   in successful res
      \<and> (\<exists>alarm. res = Inr (JDict [(ascii ''status'', JStr (ascii ''success'')),
                        (ascii ''alarms'', JList (map JDict (store @ [alarm])))], 200)
            \<and> store' = store @ [alarm])"
proof -
  define store :: "alarm list" where "store = [[(ascii ''id'', JStr (ascii ''x''))], [(ascii ''id'', JStr (ascii ''y''))]]"
  define body where "body = JDict [(ascii ''device'', JInt 7), (ascii ''fpc_slot'', JInt 7),
                     (ascii ''discard_rate'', JDict [(ascii ''discard_rate'', JInt 7)])]"
  have ok: "successful (fst (api_alerts (\<lambda>v. ascii ''7'') store (ascii ''2'') body (ascii ''z'')))"
    by (simp add: store_def body_def eval_alerts)
  have l: "length store < MAX_ALARMS" by (simp add: store_def MAX_ALARMS_def)
  from api_alerts_response_is_store[OF ok] l
  show ?thesis unfolding store_def[symmetric] body_def[symmetric] Let_def
    by (auto simp: ok split: prod.splits)
qed

section \<open>Ignoring an alarm\<close>

lemma filter_shorter_iff: "length (filter P xs) < length xs \<longleftrightarrow> (\<exists>x\<in>set xs. \<not> P x)"
  by (induction xs) (auto simp: less_Suc_eq_le)

text \<open>
  Claim C7. DELETE /api/alarms/ignore/<alarm_id>: when no alarm of the store has the id
  the answer is 404 and the store is the same list; when some alarm has it the answer is
  200 and the store is the earlier one without the alarms of that id, the others in
  their order.
\<close>

theorem api_ignore_alarm_found_or_not:
  "((\<forall>alarm\<in>set ALARM_STORE. dict_get alarm (ascii ''id'') JNull \<noteq> JStr alarm_id) \<longrightarrow>
      api_ignore_alarm ALARM_STORE alarm_id =
        ((jsonify_error (ascii ''Alarm ID not found''), 404), ALARM_STORE))
   \<and> ((\<exists>alarm\<in>set ALARM_STORE. dict_get alarm (ascii ''id'') JNull = JStr alarm_id) \<longrightarrow>
      api_ignore_alarm ALARM_STORE alarm_id =
        ((JDict [(ascii ''status'', JStr (ascii ''success'')),
                 (ascii ''message'', JStr (ascii ''Alarm ignored and removed''))], 200),
         filter (\<lambda>alarm. dict_get alarm (ascii ''id'') JNull \<noteq> JStr alarm_id) ALARM_STORE))"
  by (auto simp: api_ignore_alarm_def Let_def filter_shorter_iff filter_id_conv)

theorem api_ignore_alarm_found_or_not_witness:
  "let store = [[(ascii ''id'', JStr (ascii ''x''))], [(ascii ''id'', JStr (ascii ''y''))],
                [(ascii ''id'', JStr (ascii ''x''))]]
   in api_ignore_alarm store (ascii ''q'') = ((jsonify_error (ascii ''Alarm ID not found''), 404), store)
    \<and> api_ignore_alarm store (ascii ''x'') =
        ((JDict [(ascii ''status'', JStr (ascii ''success'')),
                 (ascii ''message'', JStr (ascii ''Alarm ignored and removed''))], 200),
         [[(ascii ''id'', JStr (ascii ''y''))]])"
proof -
  define store :: "alarm list" where "store = [[(ascii ''id'', JStr (ascii ''x''))], [(ascii ''id'', JStr (ascii ''y''))],
                [(ascii ''id'', JStr (ascii ''x''))]]"
  have a: "\<forall>alarm\<in>set store. dict_get alarm (ascii ''id'') JNull \<noteq> JStr (ascii ''q'')"
    by (simp add: store_def dict_get_def)
  have b: "\<exists>alarm\<in>set store. dict_get alarm (ascii ''id'') JNull = JStr (ascii ''x'')"
    by (simp add: store_def dict_get_def)
  have c: "filter (\<lambda>alarm. dict_get alarm (ascii ''id'') JNull \<noteq> JStr (ascii ''x'')) store
     = [[(ascii ''id'', JStr (ascii ''y''))]]"
    by (simp add: store_def dict_get_def)
  from api_ignore_alarm_found_or_not[of store "ascii ''q''"] a
  have 1: "api_ignore_alarm store (ascii ''q'') = ((jsonify_error (ascii ''Alarm ID not found''), 404), store)"
    by blast
  from api_ignore_alarm_found_or_not[of store "ascii ''x''"] b
  have 2: "api_ignore_alarm store (ascii ''x'') =
        ((JDict [(ascii ''status'', JStr (ascii ''success'')),
                 (ascii ''message'', JStr (ascii ''Alarm ignored and removed''))], 200),
         [[(ascii ''id'', JStr (ascii ''y''))]])"
    unfolding c by blast
  show ?thesis unfolding store_def[symmetric] Let_def using 1 2 by simp
qed

section \<open>The latest-result mailbox\<close>

text \<open>
  Claim C9. At start-up the slot \<open>result\<close> holds the dictionary \<open>{"text": ""}\<close>, which
  is truthy: the first poll of GET /api/results/latest-result answers 200 with the empty
  text and clears the mailbox, it does not answer 202; the poll after it answers 202
  \<open>{"status": "processing"}\<close>.
\<close>

theorem first_poll_after_startup:
  "get_analysis_results LATEST_RESULT_STORE =
     ((JDict [(ascii ''result'', JDict [(ascii ''text'', JStr [])]),
              (ascii ''timestamp'', JNull),
              (ascii ''scenario_id'', JNull)], 200), cleared)
   \<and> snd (fst (get_analysis_results LATEST_RESULT_STORE)) \<noteq> 202
   \<and> get_analysis_results (snd (get_analysis_results LATEST_RESULT_STORE)) =
       ((JDict [(ascii ''status'', JStr (ascii ''processing''))], 202), cleared)"
  by (simp add: get_analysis_results_def LATEST_RESULT_STORE_def jsonify_store_def cleared_def)




section \<open>Scenario 1 on the example of the specification\<close>

text \<open>
  Claim C4, as the code has it. On the example payload, whatever the store and the fresh
  id, the view builds the alarm below and answers 200: \<open>device\<close> is \<open>CR1\<close>, and the
  description is the error-rate text, the marker \<open><br>\<close> and then the interlink
  warning, which names \<open>ge-0/0/1\<close>. The warning is the end of the description, not its
  beginning. (\<open>repr\<close> gives the text of \<open>12.5\<close>.)
\<close>

theorem scenario_1_example_alarm:
  "let description = ascii ''Interface ge-0/0/1 error rate - '' @ repr (JFloat (Finite (25 / 2)))
                     @ ascii ''%<br>'' @ interlink_warning (ascii ''ge-0/0/1'')
   in unified_alarm_data repr (ascii ''1'') example_scenario_1 new_id =
        Ok [(ascii ''id'', JStr new_id),
            (ascii ''device'', JStr (ascii ''CR1'')),
            (ascii ''title'', JStr (ascii ''CR1 '' @ [0xC7A5, 0xBE44] @ ascii '' Interface ge-0/0/1 CRC Error ''
               @ [0xBC1C, 0xC0DD])),
            (ascii ''description'', JStr description),
            (ascii ''type'', JStr (ascii ''major'')),
            (ascii ''time'', JNull),
            (ascii ''optic_power_data'', JDict []),
            (ascii ''show_optic_power_button'', JBool True),
            (ascii ''interface_name'', JStr (ascii ''ge-0/0/1''))]
    \<and> successful (fst (api_alerts repr ALARM_STORE (ascii ''1'') example_scenario_1 new_id))
    \<and> suffix (interlink_warning (ascii ''ge-0/0/1'')) description
    \<and> sublist (ascii ''ge-0/0/1'') (interlink_warning (ascii ''ge-0/0/1''))
    \<and> \<not> prefix (interlink_warning (ascii ''ge-0/0/1'')) description"
proof -
  have a: "unified_alarm_data repr (ascii ''1'') example_scenario_1 new_id =
        Ok [(ascii ''id'', JStr new_id),
            (ascii ''device'', JStr (ascii ''CR1'')),
            (ascii ''title'', JStr (ascii ''CR1 '' @ [0xC7A5, 0xBE44] @ ascii '' Interface ge-0/0/1 CRC Error ''
               @ [0xBC1C, 0xC0DD])),
            (ascii ''description'', JStr (ascii ''Interface ge-0/0/1 error rate - '' @ repr (JFloat (Finite (25 / 2)))
                     @ ascii ''%<br>'' @ interlink_warning (ascii ''ge-0/0/1''))),
            (ascii ''type'', JStr (ascii ''major'')),
            (ascii ''time'', JNull),
            (ascii ''optic_power_data'', JDict []),
            (ascii ''show_optic_power_button'', JBool True),
            (ascii ''interface_name'', JStr (ascii ''ge-0/0/1''))]"
    by (simp add: example_scenario_1_def eval_alerts) (simp add: ascii_def)
  have b: "successful (fst (api_alerts repr ALARM_STORE (ascii ''1'') example_scenario_1 new_id))"
    by (simp add: api_alerts_def a Let_def)
  have c: "suffix (interlink_warning (ascii ''ge-0/0/1''))
      (ascii ''Interface ge-0/0/1 error rate - '' @ repr (JFloat (Finite (25 / 2)))
                     @ ascii ''%<br>'' @ interlink_warning (ascii ''ge-0/0/1''))"
    by (simp add: suffix_def)
  have d: "sublist (ascii ''ge-0/0/1'') (interlink_warning (ascii ''ge-0/0/1''))"
    unfolding interlink_warning_def sublist_def by (metis append.assoc)
  have e: "\<not> prefix (interlink_warning (ascii ''ge-0/0/1''))
      (ascii ''Interface ge-0/0/1 error rate - '' @ repr (JFloat (Finite (25 / 2)))
                     @ ascii ''%<br>'' @ interlink_warning (ascii ''ge-0/0/1''))"
    by (simp add: interlink_warning_def ascii_def)
  show ?thesis unfolding Let_def using a b c d e by blast
qed

text \<open>
  With \<open>12.5\<close> printed as \<open>12.5\<close>: the description starts with \<open>Interface\<close>, so the
  warning is not a prefix of it.
\<close>

theorem warning_is_not_a_prefix:
  "described (unified_alarm_data (\<lambda>v. ascii ''12.5'') (ascii ''1'') example_scenario_1 (ascii ''id-1''))
     = Some (ascii ''Interface ge-0/0/1 error rate - 12.5%<br>'' @ interlink_warning (ascii ''ge-0/0/1''))
   \<and> \<not> prefix (interlink_warning (ascii ''ge-0/0/1''))
        (ascii ''Interface ge-0/0/1 error rate - 12.5%<br>'' @ interlink_warning (ascii ''ge-0/0/1''))"
  by (simp add: described_def example_scenario_1_def eval_alerts) (simp add: interlink_warning_def ascii_def)

section \<open>Certificate verification of the gateway client\<close>

text \<open>
  Claim C6, as the code has it. When \<open>GW_VERIFY\<close> is not set in the environment, the
  calls that \<open>gw_post\<close> and \<open>gw_get\<close> issue carry \<open>verify=False\<close>. In every
  environment they carry \<open>verify=GW_VERIFY\<close>, which is true exactly when the variable is
  set to a value whose \<open>lower()\<close> is \<open>true\<close>.
\<close>

theorem gw_verify_default_off:
  "(env (ascii ''GW_VERIFY'') = None \<longrightarrow>
      \<not> GW_VERIFY env
      \<and> map verify (snd (gw_post env gw path body tmo strm)) = [False]
      \<and> map verify (snd (gw_get env gw path tmo)) = [False])
   \<and> map verify (snd (gw_post env gw path body tmo strm)) = [GW_VERIFY env]
   \<and> map verify (snd (gw_get env gw path tmo)) = [GW_VERIFY env]
   \<and> (GW_VERIFY env \<longleftrightarrow> (\<exists>v. env (ascii ''GW_VERIFY'') = Some v \<and> py_lower v = ascii ''true''))"
  by (auto simp: GW_VERIFY_def environ_get_def gw_post_def gw_get_def py_lower_def ascii_def Let_def
      split: option.splits)

theorem gw_verify_default_off_witness:
  "Map.empty (ascii ''GW_VERIFY'') = None
   \<and> \<not> GW_VERIFY Map.empty
   \<and> map verify (snd (gw_post Map.empty (\<lambda>c. GwResponse (Inr JNull)) (ascii ''/api/generate'') (JDict []) 30 False)) = [False]
   \<and> GW_VERIFY [ascii ''GW_VERIFY'' \<mapsto> ascii ''True'']"
  using gw_verify_default_off[of Map.empty "\<lambda>c. GwResponse (Inr JNull)" "ascii ''/api/generate''" "JDict []" 30 False]
    gw_verify_default_off[of "[ascii ''GW_VERIFY'' \<mapsto> ascii ''True'']" "\<lambda>c. GwResponse (Inr JNull)" "ascii ''/api/generate''" "JDict []" 30 False]
  by (simp add: py_lower_def ascii_def)

text \<open>In the empty environment the calls of both wrappers are made without verification.\<close>

theorem verification_not_enforced_by_default:
  "\<not> list_all verify (snd (gw_post Map.empty (\<lambda>c. GwResponse (Inr JNull)) (ascii ''/api/generate'') (JDict []) 30 False))
   \<and> \<not> list_all verify (snd (gw_get Map.empty (\<lambda>c. GwResponse (Inr JNull)) (ascii ''/ollama/api/tags'') 30))"
  by (simp add: GW_VERIFY_def environ_get_def gw_post_def gw_get_def py_lower_def ascii_def Let_def)

section \<open>A blank query reaches no upstream\<close>






section \<open>Rejected alerts\<close>

lemma scenario_2_absent_or_zero:
  "discard_rate_absent_or_zero d \<Longrightarrow> fields_typed (ascii ''2'') d \<Longrightarrow>
   scenario_2 repr (JDict d) nid = Return (jsonify_error (ascii ''Missing data for scenario 2''), 400)"
  by (auto simp: scenario_2_def int_dict_get_def dict_get_def discard_rate_absent_or_zero_def
      nested_field_def fields_typed_def split: option.splits json.splits)

lemma scenario_2_absent_or_zero_no_alarm:
  "discard_rate_absent_or_zero d \<Longrightarrow> scenario_2 repr (JDict d) nid \<noteq> Ok alarm"
  by (cases "hashable (dict_get d (ascii ''device'') JNull)")
     (auto simp: scenario_2_def int_dict_get_def dict_get_def discard_rate_absent_or_zero_def
        nested_field_def split: option.splits json.splits)




lemma unhashable_device_raises:
  assumes "d \<noteq> []" and "sid = ascii ''1'' \<or> sid = ascii ''2'' \<or> sid = ascii ''3''"
    and "\<not> hashable (dict_get d (ascii ''device'') JNull)"
  shows "api_alerts repr s sid (JDict d) nid = (Inl (unhashable (dict_get d (ascii ''device'') JNull)), s)"
    and "flask_response (fst (api_alerts repr s sid (JDict d) nid)) = internal_error"
  using assms
  by (auto simp: api_alerts_def unified_alarm_data_def scenario_1_def scenario_2_def scenario_3_def
      int_dict_get_def)

lemma api_alerts_not_successful_store:
  "\<not> successful (fst (api_alerts repr s sid body nid)) \<Longrightarrow> snd (api_alerts repr s sid body nid) = s"
  by (cases "unified_alarm_data repr sid body nid") (auto simp: api_alerts_def Let_def)

text \<open>
  Claim C2, as the code has it. Scenario 2, payload an object whose nested field
  \<open>discard_rate.discard_rate\<close> is absent or \<open>0.0\<close>: no alarm is built, the request is
  not answered 200 and the store stays as it was. When moreover the payload is not
  empty, its \<open>device\<close> is not a list or an object, and its \<open>discard_rate\<close> is absent
  or an object, the discard rate read at line 312 is \<open>0.0\<close>, the required-field check
  of line 316 fails, and the answer is 400 \<open>Missing data for scenario 2\<close>.
\<close>

theorem scenario_2_zero_discard_rate_rejected:
  "(discard_rate_absent_or_zero d \<longrightarrow>
      (\<forall>alarm. unified_alarm_data repr (ascii ''2'') (JDict d) new_id \<noteq> Ok alarm)
      \<and> \<not> successful (fst (api_alerts repr ALARM_STORE (ascii ''2'') (JDict d) new_id))
      \<and> snd (api_alerts repr ALARM_STORE (ascii ''2'') (JDict d) new_id) = ALARM_STORE)
   \<and> (discard_rate_absent_or_zero d \<and> d \<noteq> [] \<and> fields_typed (ascii ''2'') d \<longrightarrow>
      unified_alarm_data repr (ascii ''2'') (JDict d) new_id =
        Return (jsonify_error (ascii ''Missing data for scenario 2''), 400)
      \<and> api_alerts repr ALARM_STORE (ascii ''2'') (JDict d) new_id =
        (Inr (jsonify_error (ascii ''Missing data for scenario 2''), 400), ALARM_STORE))"
proof -
  have n: "unified_alarm_data repr (ascii ''2'') (JDict d) new_id \<noteq> Ok alarm"
    if "discard_rate_absent_or_zero d" for alarm
    using scenario_2_absent_or_zero_no_alarm[OF that, of repr new_id alarm]
    by (simp add: unified_alarm_data_def Let_def)
  have f: "\<not> successful (fst (api_alerts repr ALARM_STORE (ascii ''2'') (JDict d) new_id))"
    if "discard_rate_absent_or_zero d"
    using successful_api_alerts n[OF that] by blast
  have u: "unified_alarm_data repr (ascii ''2'') (JDict d) new_id =
        Return (jsonify_error (ascii ''Missing data for scenario 2''), 400)"
    if "discard_rate_absent_or_zero d" "d \<noteq> []" "fields_typed (ascii ''2'') d"
    using scenario_2_absent_or_zero[OF that(1,3)] that(2) by (simp add: unified_alarm_data_def)
  have a: "api_alerts repr ALARM_STORE (ascii ''2'') (JDict d) new_id =
        (Inr (jsonify_error (ascii ''Missing data for scenario 2''), 400), ALARM_STORE)"
    if "discard_rate_absent_or_zero d" "d \<noteq> []" "fields_typed (ascii ''2'') d"
    using u[OF that] by (simp add: api_alerts_def)
  show ?thesis using n f u a api_alerts_not_successful_store by blast
qed

text \<open>
  The rate present with \<open>0.0\<close>, \<open>discard_rate\<close> absent, and \<open>discard_rate\<close> an object
  without the nested key: each is answered 400 \<open>Missing data for scenario 2\<close>.
\<close>

theorem scenario_2_zero_discard_rate_rejected_witness:
  "api_alerts (\<lambda>v. ascii ''0.0'') [] (ascii ''2'')
      (JDict [(ascii ''device'', JInt 5), (ascii ''fpc_slot'', JInt 8),
              (ascii ''discard_rate'', JDict [(ascii ''discard_rate'', JFloat (Finite 0))])]) (ascii ''n'')
     = (Inr (jsonify_error (ascii ''Missing data for scenario 2''), 400), [])
   \<and> api_alerts (\<lambda>v. ascii ''0.0'') [] (ascii ''2'')
      (JDict [(ascii ''device'', JInt 5), (ascii ''fpc_slot'', JInt 8)]) (ascii ''n'')
     = (Inr (jsonify_error (ascii ''Missing data for scenario 2''), 400), [])
   \<and> api_alerts (\<lambda>v. ascii ''0.0'') [] (ascii ''2'')
      (JDict [(ascii ''device'', JInt 5), (ascii ''fpc_slot'', JInt 8),
              (ascii ''discard_rate'', JDict [(ascii ''other'', JInt 1)])]) (ascii ''n'')
     = (Inr (jsonify_error (ascii ''Missing data for scenario 2''), 400), [])
   \<and> snd (api_alerts (\<lambda>v. ascii ''0.0'') [] (ascii ''2'')
      (JDict [(ascii ''device'', JInt 5), (ascii ''fpc_slot'', JInt 8),
              (ascii ''discard_rate'', JNull)]) (ascii ''n'')) = []"
proof -
  let ?zero = "[(ascii ''device'', JInt 5), (ascii ''fpc_slot'', JInt 8),
              (ascii ''discard_rate'', JDict [(ascii ''discard_rate'', JFloat (Finite 0))])]"
  let ?none = "[(ascii ''device'', JInt 5), (ascii ''fpc_slot'', JInt 8)]"
  let ?inner = "[(ascii ''device'', JInt 5), (ascii ''fpc_slot'', JInt 8),
              (ascii ''discard_rate'', JDict [(ascii ''other'', JInt 1)])]"
  let ?null = "[(ascii ''device'', JInt 5), (ascii ''fpc_slot'', JInt 8),
              (ascii ''discard_rate'', JNull)]"
  have a: "discard_rate_absent_or_zero ?zero \<and> ?zero \<noteq> [] \<and> fields_typed (ascii ''2'') ?zero"
    by (simp add: discard_rate_absent_or_zero_def nested_field_def fields_typed_def dict_get_def)
  have b: "discard_rate_absent_or_zero ?none \<and> ?none \<noteq> [] \<and> fields_typed (ascii ''2'') ?none"
    by (simp add: discard_rate_absent_or_zero_def nested_field_def fields_typed_def dict_get_def)
  have c: "discard_rate_absent_or_zero ?inner \<and> ?inner \<noteq> [] \<and> fields_typed (ascii ''2'') ?inner"
    by (simp add: discard_rate_absent_or_zero_def nested_field_def fields_typed_def dict_get_def)
  have d: "discard_rate_absent_or_zero ?null"
    by (simp add: discard_rate_absent_or_zero_def nested_field_def)
  show ?thesis
    using scenario_2_zero_discard_rate_rejected[of ?zero "\<lambda>v. ascii ''0.0''" "ascii ''n''" "[]"] a
      scenario_2_zero_discard_rate_rejected[of ?none "\<lambda>v. ascii ''0.0''" "ascii ''n''" "[]"] b
      scenario_2_zero_discard_rate_rejected[of ?inner "\<lambda>v. ascii ''0.0''" "ascii ''n''" "[]"] c
      scenario_2_zero_discard_rate_rejected[of ?null "\<lambda>v. ascii ''0.0''" "ascii ''n''" "[]"] d
    by blast
qed

text \<open>
  The nested field is absent from each of these three payloads of scenario 2, and none
  is answered 400 \<open>Missing data for scenario 2\<close>: a \<open>device\<close> that is a list raises
  \<open>TypeError\<close> at line 308 and a \<open>discard_rate\<close> that is \<open>null\<close> raises
  \<open>AttributeError\<close> at line 312, both answered 500 by the error handler; the empty
  object is refused as a missing body.
\<close>

theorem zero_discard_rate_not_always_400:
  "discard_rate_absent_or_zero [(ascii ''device'', JList [JInt 5]), (ascii ''fpc_slot'', JInt 8)]
   \<and> api_alerts (\<lambda>v. ascii ''[5]'') [] (ascii ''2'')
        (JDict [(ascii ''device'', JList [JInt 5]), (ascii ''fpc_slot'', JInt 8)]) (ascii ''n'')
      = (Inl (TypeError (ascii ''unhashable type: '' @ ascii [CHR 0x27] @ ascii ''list'' @ ascii [CHR 0x27])), [])
   \<and> snd (flask_response (fst (api_alerts (\<lambda>v. ascii ''[5]'') [] (ascii ''2'')
        (JDict [(ascii ''device'', JList [JInt 5]), (ascii ''fpc_slot'', JInt 8)]) (ascii ''n''))))
      = 500
   \<and> discard_rate_absent_or_zero
        [(ascii ''device'', JInt 5), (ascii ''fpc_slot'', JInt 8), (ascii ''discard_rate'', JNull)]
   \<and> api_alerts (\<lambda>v. ascii ''5'') [] (ascii ''2'')
        (JDict [(ascii ''device'', JInt 5), (ascii ''fpc_slot'', JInt 8),
                (ascii ''discard_rate'', JNull)]) (ascii ''n'')
      = (Inl (AttributeError (ascii [CHR 0x27] @ ascii ''NoneType'' @ ascii [CHR 0x27]
           @ ascii '' object has no attribute '' @ ascii [CHR 0x27] @ ascii ''get'' @ ascii [CHR 0x27])), [])
   \<and> snd (flask_response (fst (api_alerts (\<lambda>v. ascii ''5'') [] (ascii ''2'')
        (JDict [(ascii ''device'', JInt 5), (ascii ''fpc_slot'', JInt 8),
                (ascii ''discard_rate'', JNull)]) (ascii ''n''))))
      = 500
   \<and> discard_rate_absent_or_zero []
   \<and> api_alerts (\<lambda>v. []) [] (ascii ''2'') (JDict []) (ascii ''n'')
      = (Inr (jsonify_error (ascii ''Request body is required''), 400), [])
   \<and> jsonify_error (ascii ''Request body is required'')
      \<noteq> jsonify_error (ascii ''Missing data for scenario 2'')"
  by (simp add: discard_rate_absent_or_zero_def nested_field_def eval_alerts unhashable_def
      no_attribute_def internal_error_def jsonify_error_def)





end
